theory Spec2Isabelle
  imports Complex_Main
begin

section \<open>CLOVER finance module: values, errors and look-ups\<close>

text \<open>
  The embedding follows \<^verbatim>\<open>src/clover/impact/finance.py\<close>. Python floats are
  modelled as real numbers, with the rounding to doubles written out where it decides
  a result (\<open>fl\<close> below); Python integers are \<^typ>\<open>int\<close>. A leading underscore of a
  Python name is dropped (\<^verbatim>\<open>_component_cost\<close> is \<open>component_cost\<close>).
  Every \<^verbatim>\<open>raise\<close> of the source is a value \<open>Inl e\<close>. \<open>OutsideReals\<close> is not an
  exception: it marks a Python result that is \<^verbatim>\<open>nan\<close>, infinite or complex, which
  the real numbers cannot express.
\<close>

datatype py_error =
    KeyError string
  | TypeError
  | AttributeError
  | ZeroDivisionError
  | InputFileError string string
  | OutsideReals

definition and_then :: "py_error + 'a \<Rightarrow> ('a \<Rightarrow> py_error + 'b) \<Rightarrow> py_error + 'b" where
  "and_then r f = (case r of Inl e \<Rightarrow> Inl e | Inr v \<Rightarrow> f v)"

fun traverse :: "('a \<Rightarrow> py_error + 'b) \<Rightarrow> 'a list \<Rightarrow> py_error + 'b list" where
  "traverse f [] = Inr []"
| "traverse f (x # xs) = and_then (f x) (\<lambda>y. and_then (traverse f xs) (\<lambda>ys. Inr (y # ys)))"

text \<open>
  A number stored in a component entry is a Python \<^verbatim>\<open>int\<close> or a \<^verbatim>\<open>float\<close>; the
  difference shows where a number is used as a position (\<^verbatim>\<open>.iloc\<close>). In arithmetic
  with floats an \<^verbatim>\<open>int\<close> is converted.
\<close>

datatype pynum = PyInt int | PyFloat real

fun to_float :: "pynum \<Rightarrow> real" where
  "to_float (PyInt n) = of_int n"
| "to_float (PyFloat x) = x"

text \<open>
  The finance inputs are a \<^verbatim>\<open>Dict[str, Any]\<close>: a key holds either a number
  (\<^verbatim>\<open>discount_rate\<close>, \<^verbatim>\<open>general_o&m\<close>) or the dictionary of one component.
\<close>

datatype fin_value = Scalar real | Entry "string \<Rightarrow> pynum option"

type_synonym finance_inputs = "string \<Rightarrow> fin_value option"

text \<open>
  Two parameters of \<open>get_total_equipment_cost\<close> receive, from a caller in the same file,
  a value that is not of the annotated type; they are modelled as Python values.
\<close>

datatype pyval = Num real | LoggerObj

definition BOS :: string where "BOS = ''bos''"
definition CLEAN_WATER_TANK :: string where "CLEAN_WATER_TANK = ''clean_water_tank''"
definition DIESEL :: string where "DIESEL = ''diesel_generator''"
definition DIESEL_FUEL :: string where "DIESEL_FUEL = ''diesel_fuel''"
definition HOUSEHOLDS :: string where "HOUSEHOLDS = ''households''"
definition HOT_WATER_TANK :: string where "HOT_WATER_TANK = ''hot_water_tank''"
definition INVERTER :: string where "INVERTER = ''inverter''"
definition MISC :: string where "MISC = ''misc''"
definition PV :: string where "PV = ''pv''"
definition PV_T :: string where "PV_T = ''pv_t''"
definition STORAGE :: string where "STORAGE = ''storage''"

definition LIFETIME :: string where "LIFETIME = ''lifetime''"
definition SIZE_INCREMENT :: string where "SIZE_INCREMENT = ''size_increment''"
definition CONNECTION_COST :: string where "CONNECTION_COST = ''connection_cost''"
definition COST :: string where "COST = ''cost''"
definition COST_DECREASE :: string where "COST_DECREASE = ''cost_decrease''"
definition DISCOUNT_RATE :: string where "DISCOUNT_RATE = ''discount_rate''"
definition GENERAL_OM :: string where "GENERAL_OM = ''general_o&m''"
definition INSTALLATION_COST :: string where "INSTALLATION_COST = ''cost''"
definition INSTALLATION_COST_DECREASE :: string where
  "INSTALLATION_COST_DECREASE = ''cost_decrease''"
definition OM :: string where "OM = ''o&m''"


text \<open>The same look-up where the number goes into float arithmetic.\<close>

definition get_entry :: "finance_inputs \<Rightarrow> string \<Rightarrow> string \<Rightarrow> py_error + real" where
  "get_entry finance_inputs c k =
     (case finance_inputs c of
        None \<Rightarrow> Inl (KeyError c)
      | Some (Scalar _) \<Rightarrow> Inl TypeError
      | Some (Entry e) \<Rightarrow>
          (case e k of None \<Rightarrow> Inl (KeyError k) | Some v \<Rightarrow> Inr (to_float v)))"

text \<open>\<^verbatim>\<open>finance_inputs[k]\<close> used in arithmetic: a dictionary there is a TypeError.\<close>

definition get_scalar :: "finance_inputs \<Rightarrow> string \<Rightarrow> py_error + real" where
  "get_scalar finance_inputs k =
     (case finance_inputs k of
        None \<Rightarrow> Inl (KeyError k)
      | Some (Scalar r) \<Rightarrow> Inr r
      | Some (Entry _) \<Rightarrow> Inl TypeError)"

text \<open>\<^verbatim>\<open>v > 0\<close> and \<^verbatim>\<open>logger.error(...)\<close> on a Python value.\<close>

definition gt_zero :: "pyval \<Rightarrow> py_error + bool" where
  "gt_zero v = (case v of Num r \<Rightarrow> Inr (0 < r) | LoggerObj \<Rightarrow> Inl TypeError)"

definition log_error :: "pyval \<Rightarrow> py_error + unit" where
  "log_error v = (case v of LoggerObj \<Rightarrow> Inr () | Num _ \<Rightarrow> Inl AttributeError)"

text \<open>\<^verbatim>\<open>x ** n\<close> for a float \<open>x\<close> and an integer \<open>n\<close>.\<close>

definition float_pow_int :: "real \<Rightarrow> int \<Rightarrow> py_error + real" where
  "float_pow_int x n = (if x = 0 \<and> n < 0 then Inl ZeroDivisionError else Inr (x powi n))"



section \<open>Helper functions\<close>

definition component_cost :: "real \<Rightarrow> real \<Rightarrow> real \<Rightarrow> int \<Rightarrow> py_error + real" where
  "component_cost component_cost' component_cost_decrease component_size installation_year =
     (let system_wide_cost = component_cost' * component_size;
          annual_reduction = 0.01 * component_cost_decrease
      in and_then (float_pow_int (1 - annual_reduction) installation_year)
           (\<lambda>p. Inr (system_wide_cost * p)))"

definition component_installation_cost :: "real \<Rightarrow> real \<Rightarrow> real \<Rightarrow> int \<Rightarrow> py_error + real" where
  "component_installation_cost component_size installation_cost installation_cost_decrease
       installation_year =
     (let total_component_installation_cost = component_size * installation_cost;
          annual_reduction = 0.01 * installation_cost_decrease
      in and_then (float_pow_int (1 - annual_reduction) installation_year)
           (\<lambda>p. Inr (total_component_installation_cost * p)))"

text \<open>
  \<^verbatim>\<open>((1.0 + discount_rate) ** (1.0 / 365.0)) - 1.0\<close>. Python returns a complex number
  for a negative base under a fractional exponent, and \<open>0\<close> for the base \<open>0\<close>, as
  \<open>powr\<close> does.
\<close>

definition daily_discount_rate :: "real \<Rightarrow> py_error + real" where
  "daily_discount_rate discount_rate =
     (if 1 + discount_rate < 0 then Inl OutsideReals
      else Inr ((1 + discount_rate) powr (1 / 365) - 1))"

definition discounted_fraction :: "real \<Rightarrow> int \<Rightarrow> int \<Rightarrow> py_error + real list" where
  "discounted_fraction discount_rate start_year end_year =
     (let start_day = start_year * 365;
          end_day = end_year * 365
      in and_then (daily_discount_rate discount_rate) (\<lambda>r_d.
           let denominator = 1 + r_d
           in traverse (\<lambda>time. float_pow_int denominator (- time)) [start_day..end_day - 1]))"




text \<open>
  \<^verbatim>\<open>np.sum(discounted_fraction * total_daily)[0]\<close> on two one-column frames with
  the default row labels \<open>0, 1, \<dots>\<close>. The product aligns the rows by label and holds
  \<^verbatim>\<open>nan\<close> in a row that only one frame has; the sum skips \<^verbatim>\<open>nan\<close>. Two empty frames
  have no column, so the subscript \<^verbatim>\<open>[0]\<close> of the sum finds no label.
\<close>

definition frame_product_sum :: "real list \<Rightarrow> real list \<Rightarrow> py_error + real" where
  "frame_product_sum xs ys =
     (if xs = [] \<and> ys = [] then Inl (KeyError ''0'')
      else Inr (sum_list (map2 (*) xs ys)))"

text \<open>The logger of this function only writes a message before the KeyError is re-raised.\<close>

definition discounted_energy_total :: "finance_inputs \<Rightarrow> real list \<Rightarrow> int \<Rightarrow> int \<Rightarrow> py_error + real" where
  "discounted_energy_total finance_inputs total_daily start_year end_year =
     and_then (get_scalar finance_inputs DISCOUNT_RATE) (\<lambda>discount_rate.
     and_then (discounted_fraction discount_rate start_year end_year) (\<lambda>fraction.
     frame_product_sum fraction total_daily))"

text \<open>\<^verbatim>\<open>[om_cost_daily] * (end_year - start_year) * 265\<close>: a negative count gives the empty list.\<close>

definition component_om :: "real \<Rightarrow> real \<Rightarrow> finance_inputs \<Rightarrow> int \<Rightarrow> int \<Rightarrow> py_error + real" where
  "component_om component_om_cost component_size finance_inputs start_year end_year =
     (let om_cost_daily = (component_size * component_om_cost) / 365;
          total_daily_cost = replicate (nat (end_year - start_year) * 265) om_cost_daily
      in discounted_energy_total finance_inputs total_daily_cost start_year end_year)"

definition misc_costs :: "real \<Rightarrow> real \<Rightarrow> real \<Rightarrow> real" where
  "misc_costs diesel_size misc_costs' pv_array_size = (pv_array_size + diesel_size) * misc_costs'"

section \<open>Inverter replacement\<close>










section \<open>Externally facing functions\<close>

text \<open>
  \<^verbatim>\<open>_component_cost(finance_inputs[c][COST], finance_inputs[c][COST_DECREASE], size, year)\<close>
  and the same call pattern for the installation cost: the arguments are looked up from
  left to right before the call.
\<close>

definition capital_of :: "finance_inputs \<Rightarrow> string \<Rightarrow> real \<Rightarrow> int \<Rightarrow> py_error + real" where
  "capital_of finance_inputs c component_size installation_year =
     and_then (get_entry finance_inputs c COST) (\<lambda>cost.
     and_then (get_entry finance_inputs c COST_DECREASE) (\<lambda>cost_decrease.
     component_cost cost cost_decrease component_size installation_year))"

definition installation_of :: "finance_inputs \<Rightarrow> string \<Rightarrow> real \<Rightarrow> int \<Rightarrow> py_error + real" where
  "installation_of finance_inputs c component_size installation_year =
     and_then (get_entry finance_inputs c INSTALLATION_COST) (\<lambda>cost.
     and_then (get_entry finance_inputs c INSTALLATION_COST_DECREASE) (\<lambda>cost_decrease.
     component_installation_cost component_size cost cost_decrease installation_year))"

text \<open>
  \<^verbatim>\<open>if c not in finance_inputs and size > 0: logger.error(...); raise InputFileError(...)\<close>
  with the short-circuit of \<^verbatim>\<open>and\<close>.
\<close>

definition require_entry ::
  "finance_inputs \<Rightarrow> string \<Rightarrow> pyval \<Rightarrow> pyval \<Rightarrow> py_error \<Rightarrow> py_error + unit" where
  "require_entry finance_inputs c component_size logger err =
     and_then (if finance_inputs c = None then gt_zero component_size else Inr False) (\<lambda>missing.
     if missing then and_then (log_error logger) (\<lambda>_. Inl err) else Inr ())"

definition clean_water_error :: py_error where
  "clean_water_error = InputFileError ''finance inputs''
     (''No clean-water financial input information provided and a non-zero '' @
      ''number of clean-water tanks are being considered.'')"

definition hot_water_error :: py_error where
  "hot_water_error = InputFileError ''tank inputs''
     (''No hot-water financial input information provided and a non-zero '' @
      ''number of clean-water tanks are being considered.'')"

definition pvt_error :: py_error where
  "pvt_error = InputFileError ''finance inputs''
     (''No PV-T financial input information provided and a non-zero number of PV-T'' @
      ''panels are being considered.'')"

text \<open>The capital and the installation cost of an optional component, \<open>0\<close> unless its size is positive.\<close>

definition optional_costs ::
  "bool \<Rightarrow> py_error + real \<Rightarrow> py_error + real \<Rightarrow> py_error + real \<times> real" where
  "optional_costs present capital installation =
     (if present
      then and_then capital (\<lambda>c. and_then installation (\<lambda>i. Inr (c, i)))
      else Inr (0, 0))"

definition get_total_equipment_cost ::
  "real \<Rightarrow> real \<Rightarrow> finance_inputs \<Rightarrow> pyval \<Rightarrow> pyval \<Rightarrow> real \<Rightarrow> real \<Rightarrow> real \<Rightarrow> int
     \<Rightarrow> py_error + real" where
  "get_total_equipment_cost clean_water_tanks diesel_size finance_inputs hot_water_tanks logger
       pv_array_size pvt_array_size storage_size installation_year =
     and_then (capital_of finance_inputs BOS pv_array_size installation_year) (\<lambda>bos_cost.
     and_then (require_entry finance_inputs CLEAN_WATER_TANK (Num clean_water_tanks) logger
                 clean_water_error) (\<lambda>_.
     and_then (optional_costs (0 < clean_water_tanks)
                 (capital_of finance_inputs CLEAN_WATER_TANK clean_water_tanks installation_year)
                 (installation_of finance_inputs CLEAN_WATER_TANK clean_water_tanks
                    installation_year))
       (\<lambda>(clean_water_tank_cost, clean_water_tank_installation_cost).
     and_then (capital_of finance_inputs DIESEL diesel_size installation_year) (\<lambda>diesel_cost.
     and_then (installation_of finance_inputs DIESEL pv_array_size installation_year)
       (\<lambda>diesel_installation_cost.
     and_then (require_entry finance_inputs HOT_WATER_TANK hot_water_tanks logger
                 hot_water_error) (\<lambda>_.
     and_then (gt_zero hot_water_tanks) (\<lambda>hot_water_present.
     and_then (case hot_water_tanks of
                 Num h \<Rightarrow> optional_costs hot_water_present
                            (capital_of finance_inputs HOT_WATER_TANK h installation_year)
                            (installation_of finance_inputs HOT_WATER_TANK h installation_year)
               | LoggerObj \<Rightarrow> Inl TypeError)
       (\<lambda>(hot_water_tank_cost, hot_water_tank_installation_cost).
     and_then (capital_of finance_inputs PV pv_array_size installation_year) (\<lambda>pv_cost.
     and_then (installation_of finance_inputs PV pv_array_size installation_year)
       (\<lambda>pv_installation_cost.
     and_then (require_entry finance_inputs PV_T (Num pvt_array_size) logger pvt_error) (\<lambda>_.
     and_then (optional_costs (0 < pvt_array_size)
                 (capital_of finance_inputs PV_T pv_array_size installation_year)
                 (installation_of finance_inputs PV_T pvt_array_size installation_year))
       (\<lambda>(pvt_cost, pvt_installation_cost).
     and_then (capital_of finance_inputs STORAGE storage_size installation_year) (\<lambda>storage_cost.
     let total_installation_cost =
           clean_water_tank_installation_cost + diesel_installation_cost
           + hot_water_tank_installation_cost + pv_installation_cost + pvt_installation_cost
     in
     and_then (get_entry finance_inputs MISC COST) (\<lambda>misc.
     let misc_costs'' = misc_costs diesel_size misc pv_array_size
     in Inr (bos_cost + clean_water_tank_cost + diesel_cost + hot_water_tank_cost
             + misc_costs'' + pv_cost + pvt_cost + storage_cost
             + total_installation_cost)))))))))))))))"

text \<open>
  \<^verbatim>\<open>np.max(households) - np.min(households)\<close> on a one-column frame; on an empty one
  it is \<^verbatim>\<open>nan\<close>, and so is the result once the look-ups have succeeded.
\<close>

definition connections_expenditure :: "finance_inputs \<Rightarrow> real list \<Rightarrow> int \<Rightarrow> py_error + real" where
  "connections_expenditure finance_inputs households installation_year =
     and_then (get_entry finance_inputs HOUSEHOLDS CONNECTION_COST) (\<lambda>connection_cost.
     and_then (get_scalar finance_inputs DISCOUNT_RATE) (\<lambda>discount_rate.
     and_then (float_pow_int (1 - discount_rate) installation_year) (\<lambda>discount_fraction.
     if households = [] then Inl OutsideReals
     else
       let new_connections = Max (set households) - Min (set households);
           undiscounted_cost = connection_cost * new_connections
       in Inr (undiscounted_cost * discount_fraction))))"

text \<open>
  The call passes eight positional arguments to the nine parameters of
  \<open>get_total_equipment_cost\<close>: the logger lands in \<open>hot_water_tanks\<close>, every later
  argument one place to the left of its name, and \<open>installation_year\<close> keeps its
  default \<open>0\<close>.
\<close>

definition discounted_equipment_cost ::
  "real \<Rightarrow> real \<Rightarrow> finance_inputs \<Rightarrow> pyval \<Rightarrow> real \<Rightarrow> real \<Rightarrow> real \<Rightarrow> int \<Rightarrow> py_error + real" where
  "discounted_equipment_cost clean_water_tanks diesel_size finance_inputs logger pv_array_size
       pvt_array_size storage_size installation_year =
     and_then (get_total_equipment_cost clean_water_tanks diesel_size finance_inputs logger
                 (Num pv_array_size) pvt_array_size storage_size (of_int installation_year) 0)
       (\<lambda>undiscounted_cost.
     and_then (get_scalar finance_inputs DISCOUNT_RATE) (\<lambda>discount_rate.
     and_then (float_pow_int (1 - discount_rate) installation_year) (\<lambda>discount_fraction.
     Inr (undiscounted_cost * discount_fraction))))"

definition tank_om_error :: "string \<Rightarrow> py_error" where
  "tank_om_error kind = InputFileError ''tank inputs''
     (''No '' @ kind @ '' tank financial input information provided and a non-zero '' @
      ''number of clean-water tanks are being considered.'')"

text \<open>\<^verbatim>\<open>_component_om(finance_inputs[c][OM], size, ...)\<close> for a component with a positive size, else \<open>0\<close>.\<close>

definition om_of :: "finance_inputs \<Rightarrow> string \<Rightarrow> real \<Rightarrow> int \<Rightarrow> int \<Rightarrow> py_error + real" where
  "om_of finance_inputs c component_size start_year end_year =
     and_then (get_entry finance_inputs c OM) (\<lambda>om.
     component_om om component_size finance_inputs start_year end_year)"

definition total_om ::
  "real \<Rightarrow> real \<Rightarrow> finance_inputs \<Rightarrow> real \<Rightarrow> real \<Rightarrow> real \<Rightarrow> real \<Rightarrow> int \<Rightarrow> int \<Rightarrow> py_error + real" where
  "total_om clean_water_tanks diesel_size finance_inputs hot_water_tanks pv_array_size
       pvt_array_size storage_size start_year end_year =
     and_then (require_entry finance_inputs CLEAN_WATER_TANK (Num clean_water_tanks) LoggerObj
                 (tank_om_error ''clean-water'')) (\<lambda>_.
     and_then (if 0 < clean_water_tanks
               then om_of finance_inputs CLEAN_WATER_TANK clean_water_tanks start_year end_year
               else Inr 0) (\<lambda>clean_water_tank_om.
     and_then (om_of finance_inputs DIESEL diesel_size start_year end_year) (\<lambda>diesel_om.
     and_then (and_then (get_scalar finance_inputs GENERAL_OM) (\<lambda>om.
                 component_om om 1 finance_inputs start_year end_year)) (\<lambda>general_om.
     and_then (require_entry finance_inputs HOT_WATER_TANK (Num hot_water_tanks) LoggerObj
                 (tank_om_error ''hot-water'')) (\<lambda>_.
     and_then (if 0 < hot_water_tanks
               then om_of finance_inputs HOT_WATER_TANK hot_water_tanks start_year end_year
               else Inr 0) (\<lambda>hot_water_tank_om.
     and_then (om_of finance_inputs PV pv_array_size start_year end_year) (\<lambda>pv_om.
     and_then (require_entry finance_inputs PV_T (Num pvt_array_size) LoggerObj pvt_error) (\<lambda>_.
     and_then (if 0 < pvt_array_size
               then om_of finance_inputs PV_T pvt_array_size start_year end_year
               else Inr 0) (\<lambda>pvt_om.
     and_then (om_of finance_inputs STORAGE storage_size start_year end_year) (\<lambda>storage_om.
     Inr (clean_water_tank_om + diesel_om + general_om + hot_water_tank_om + pv_om + pvt_om
          + storage_om)))))))))))"


section \<open>Formulas of the specification\<close>

text \<open>
  What the specification says about the equipment cost, as definitions of their own, to
  be compared with the functions above. \<open>price\<close> is the number under a key of a
  component entry (\<open>0\<close> where there is none); \<open>priced\<close> says that the four numbers the
  cost of a component is computed from can be read.
\<close>

definition succeeds :: "py_error + 'a \<Rightarrow> bool" where
  "succeeds r = (case r of Inl _ \<Rightarrow> False | Inr _ \<Rightarrow> True)"

definition price :: "finance_inputs \<Rightarrow> string \<Rightarrow> string \<Rightarrow> real" where
  "price finance_inputs c k = (case get_entry finance_inputs c k of Inl _ \<Rightarrow> 0 | Inr v \<Rightarrow> v)"

definition priced :: "finance_inputs \<Rightarrow> string \<Rightarrow> bool" where
  "priced finance_inputs c \<longleftrightarrow>
     succeeds (get_entry finance_inputs c COST)
     \<and> succeeds (get_entry finance_inputs c COST_DECREASE)
     \<and> succeeds (get_entry finance_inputs c INSTALLATION_COST)
     \<and> succeeds (get_entry finance_inputs c INSTALLATION_COST_DECREASE)"

text \<open>\<open>size * unit_cost * (1 - 0.01 * cost_decrease) ^ installation_year\<close>, and the same for the installation.\<close>

definition capital_formula :: "finance_inputs \<Rightarrow> string \<Rightarrow> real \<Rightarrow> int \<Rightarrow> real" where
  "capital_formula finance_inputs c component_size installation_year =
     component_size * price finance_inputs c COST
     * (1 - 0.01 * price finance_inputs c COST_DECREASE) powi installation_year"

definition installation_formula :: "finance_inputs \<Rightarrow> string \<Rightarrow> real \<Rightarrow> int \<Rightarrow> real" where
  "installation_formula finance_inputs c component_size installation_year =
     component_size * price finance_inputs c INSTALLATION_COST
     * (1 - 0.01 * price finance_inputs c INSTALLATION_COST_DECREASE) powi installation_year"

text \<open>A component that is present, one with a positive size, costs its capital and its installation.\<close>

definition present_cost :: "finance_inputs \<Rightarrow> string \<Rightarrow> real \<Rightarrow> int \<Rightarrow> real" where
  "present_cost finance_inputs c component_size installation_year =
     (if 0 < component_size
      then capital_formula finance_inputs c component_size installation_year
           + installation_formula finance_inputs c component_size installation_year
      else 0)"

text \<open>
  The total as claim C1 words it: for each of the seven components the capital cost
  plus the installation cost, each from the size of that component, plus the
  miscellaneous surcharge. The balance of system has no size among the arguments; it
  is sized by the PV array, as in the code.
\<close>

definition spec_total_equipment_cost ::
  "real \<Rightarrow> real \<Rightarrow> finance_inputs \<Rightarrow> real \<Rightarrow> real \<Rightarrow> real \<Rightarrow> real \<Rightarrow> int \<Rightarrow> real" where
  "spec_total_equipment_cost clean_water_tanks diesel_size finance_inputs hot_water_tanks
       pv_array_size pvt_array_size storage_size installation_year =
     (capital_formula finance_inputs BOS pv_array_size installation_year
      + installation_formula finance_inputs BOS pv_array_size installation_year)
     + (capital_formula finance_inputs DIESEL diesel_size installation_year
        + installation_formula finance_inputs DIESEL diesel_size installation_year)
     + (capital_formula finance_inputs PV pv_array_size installation_year
        + installation_formula finance_inputs PV pv_array_size installation_year)
     + present_cost finance_inputs PV_T pvt_array_size installation_year
     + (capital_formula finance_inputs STORAGE storage_size installation_year
        + installation_formula finance_inputs STORAGE storage_size installation_year)
     + present_cost finance_inputs CLEAN_WATER_TANK clean_water_tanks installation_year
     + present_cost finance_inputs HOT_WATER_TANK hot_water_tanks installation_year
     + (pv_array_size + diesel_size) * price finance_inputs MISC COST"

text \<open>
  The total the code computes by design: no installation cost for the balance of system
  and for the storage. The diesel installation and the PV-T capital are written from
  the sizes of their own components.
\<close>

definition designed_total_equipment_cost ::
  "real \<Rightarrow> real \<Rightarrow> finance_inputs \<Rightarrow> real \<Rightarrow> real \<Rightarrow> real \<Rightarrow> real \<Rightarrow> int \<Rightarrow> real" where
  "designed_total_equipment_cost clean_water_tanks diesel_size finance_inputs hot_water_tanks
       pv_array_size pvt_array_size storage_size installation_year =
     capital_formula finance_inputs BOS pv_array_size installation_year
     + (capital_formula finance_inputs DIESEL diesel_size installation_year
        + installation_formula finance_inputs DIESEL diesel_size installation_year)
     + (capital_formula finance_inputs PV pv_array_size installation_year
        + installation_formula finance_inputs PV pv_array_size installation_year)
     + present_cost finance_inputs PV_T pvt_array_size installation_year
     + capital_formula finance_inputs STORAGE storage_size installation_year
     + present_cost finance_inputs CLEAN_WATER_TANK clean_water_tanks installation_year
     + present_cost finance_inputs HOT_WATER_TANK hot_water_tanks installation_year
     + (pv_array_size + diesel_size) * price finance_inputs MISC COST"

text \<open>The entries that the two totals read whatever the sizes are.\<close>

definition equipment_required :: "string list" where
  "equipment_required = [BOS, DIESEL, PV, STORAGE, MISC]"

definition om_required :: "string list" where
  "om_required = [DIESEL, GENERAL_OM, PV, STORAGE]"

text \<open>A finance mapping in which every component entry is complete and every scalar is a number.\<close>

definition equipment_well_formed :: "finance_inputs \<Rightarrow> bool" where
  "equipment_well_formed finance_inputs \<longleftrightarrow>
     (\<forall>c \<in> set [BOS, DIESEL, PV, STORAGE].
        finance_inputs c \<noteq> None \<longrightarrow> priced finance_inputs c)
     \<and> (finance_inputs MISC \<noteq> None \<longrightarrow> succeeds (get_entry finance_inputs MISC COST))"

definition om_well_formed :: "finance_inputs \<Rightarrow> bool" where
  "om_well_formed finance_inputs \<longleftrightarrow>
     (\<forall>c \<in> set [DIESEL, PV, STORAGE].
        finance_inputs c \<noteq> None \<longrightarrow> succeeds (get_entry finance_inputs c OM))
     \<and> (finance_inputs GENERAL_OM \<noteq> None \<longrightarrow> succeeds (get_scalar finance_inputs GENERAL_OM))
     \<and> (case get_scalar finance_inputs DISCOUNT_RATE of Inl _ \<Rightarrow> False | Inr r \<Rightarrow> - 1 < r)"

text \<open>Finance inputs for the worked examples: every required entry, no optional one.\<close>

definition example_entry :: "real \<Rightarrow> fin_value" where
  "example_entry c =
     Entry [COST \<mapsto> PyFloat c, COST_DECREASE \<mapsto> PyFloat 0, OM \<mapsto> PyFloat 0]"

definition example_inputs :: finance_inputs where
  "example_inputs =
     [BOS \<mapsto> example_entry 2, DIESEL \<mapsto> example_entry 3, PV \<mapsto> example_entry 5,
      STORAGE \<mapsto> example_entry 7, MISC \<mapsto> example_entry 1,
      DISCOUNT_RATE \<mapsto> Scalar 0, GENERAL_OM \<mapsto> Scalar 0]"

definition full_example :: finance_inputs where
  "full_example =
     example_inputs(PV_T \<mapsto> example_entry 11, CLEAN_WATER_TANK \<mapsto> example_entry 13,
       HOT_WATER_TANK \<mapsto> example_entry 17)"



section \<open>Facts about the helpers\<close>

lemmas key_defs =
  BOS_def CLEAN_WATER_TANK_def DIESEL_def DIESEL_FUEL_def HOUSEHOLDS_def HOT_WATER_TANK_def
  INVERTER_def MISC_def PV_def PV_T_def STORAGE_def LIFETIME_def SIZE_INCREMENT_def
  CONNECTION_COST_def COST_def COST_DECREASE_def DISCOUNT_RATE_def GENERAL_OM_def
  INSTALLATION_COST_def INSTALLATION_COST_DECREASE_def OM_def


lemma traverse_total:
  "(\<And>x. x \<in> set xs \<Longrightarrow> f x = Inr (g x)) \<Longrightarrow> traverse f xs = Inr (map g xs)"
  by (induction xs) (simp_all add: and_then_def)

lemma length_days: "length [s * 365..e * 365 - 1] = nat ((e - s) * 365)" for s e :: int
  by (simp add: algebra_simps)

lemma nth_days:
  "i < nat ((e - s) * 365) \<Longrightarrow> [s * 365..e * 365 - 1] ! i = s * 365 + int i" for s e :: int
  by (simp add: algebra_simps)

lemma daily_denominator_pos: "- 1 < r \<Longrightarrow> 0 < (1 + r) powr (1 / 365)" for r :: real
  by simp

lemma discounted_fraction_eq:
  assumes "- 1 < r"
  shows "discounted_fraction r s e =
           Inr (map (\<lambda>t. (1 + ((1 + r) powr (1 / 365) - 1)) powi (- t)) [s * 365..e * 365 - 1])"
proof -
  have pos: "0 < (1 + r) powr (1 / 365)" using assms by simp
  have "traverse (\<lambda>time. float_pow_int (1 + ((1 + r) powr (1 / 365) - 1)) (- time))
          [s * 365..e * 365 - 1]
        = Inr (map (\<lambda>t. (1 + ((1 + r) powr (1 / 365) - 1)) powi (- t)) [s * 365..e * 365 - 1])"
    using pos by (intro traverse_total) (simp add: float_pow_int_def)
  then show ?thesis
    using assms by (simp add: discounted_fraction_def daily_discount_rate_def and_then_def Let_def)
qed


lemma sum_list_map2_nth:
  "sum_list (map2 (*) xs ys) = (\<Sum>i<min (length xs) (length ys). xs ! i * ys ! i)"
  for xs ys :: "real list"
proof -
  have "sum_list (map2 (*) xs ys) = (\<Sum>i = 0..<length (map2 (*) xs ys). map2 (*) xs ys ! i)"
    by (rule sum_list_sum_nth)
  also have "\<dots> = (\<Sum>i<min (length xs) (length ys). xs ! i * ys ! i)"
    by (intro sum.cong) (auto simp add: atLeast0LessThan)
  finally show ?thesis .
qed

lemma discounted_energy_total_eq:
  assumes "get_scalar finance_inputs DISCOUNT_RATE = Inr r" and "- 1 < r"
    and "total_daily \<noteq> [] \<or> start_year < end_year"
  shows "discounted_energy_total finance_inputs total_daily start_year end_year =
           Inr (\<Sum>i<min (nat ((end_year - start_year) * 365)) (length total_daily).
                  (1 + ((1 + r) powr (1 / 365) - 1)) powi (- (start_year * 365 + int i))
                  * total_daily ! i)"
proof -
  let ?fs = "map (\<lambda>t. (1 + ((1 + r) powr (1 / 365) - 1)) powi (- t))
               [start_year * 365..end_year * 365 - 1]"
  have l: "length ?fs = nat ((end_year - start_year) * 365)"
    by (simp only: length_map length_days)
  have v: "?fs ! i = (1 + ((1 + r) powr (1 / 365) - 1)) powi (- (start_year * 365 + int i))"
    if "i < nat ((end_year - start_year) * 365)" for i
    using that by (simp only: nth_map length_days nth_days)
  have ne: "\<not> (?fs = [] \<and> total_daily = [])"
  proof -
    have "?fs \<noteq> []" if "start_year < end_year"
    proof -
      from that have "0 < nat ((end_year - start_year) * 365)" by simp
      with l show ?thesis by (metis length_greater_0_conv)
    qed
    with assms(3) show ?thesis by blast
  qed
  have "discounted_energy_total finance_inputs total_daily start_year end_year =
          frame_product_sum ?fs total_daily"
    using assms(1) discounted_fraction_eq [OF assms(2), of start_year end_year]
    by (simp add: discounted_energy_total_def and_then_def)
  also have "\<dots> = Inr (sum_list (map2 (*) ?fs total_daily))"
    using ne unfolding frame_product_sum_def by (simp only: if_False)
  also have "sum_list (map2 (*) ?fs total_daily) =
               (\<Sum>i<min (length ?fs) (length total_daily). ?fs ! i * total_daily ! i)"
    by (rule sum_list_map2_nth)
  also have "\<dots> = (\<Sum>i<min (nat ((end_year - start_year) * 365)) (length total_daily).
                  (1 + ((1 + r) powr (1 / 365) - 1)) powi (- (start_year * 365 + int i))
                  * total_daily ! i)"
    unfolding l
  proof (intro sum.cong refl)
    fix i assume "i \<in> {..<min (nat ((end_year - start_year) * 365)) (length total_daily)}"
    then have "i < nat ((end_year - start_year) * 365)" by simp
    then show "?fs ! i * total_daily ! i =
                 (1 + ((1 + r) powr (1 / 365) - 1)) powi (- (start_year * 365 + int i))
                 * total_daily ! i"
      by (simp only: v)
  qed
  finally show ?thesis .
qed


lemma zero_rate_fraction: "(1 + ((1 + (0::real)) powr (1 / 365) - 1)) powi n = 1"
  by simp

lemma and_then_Inr: "and_then (Inr v) f = f v"
  by (simp add: and_then_def)

lemma and_then_Inl: "and_then (Inl e) f = Inl e"
  by (simp add: and_then_def)

lemma succeedsE: "succeeds r \<Longrightarrow> (\<And>v. r = Inr v \<Longrightarrow> P) \<Longrightarrow> P"
  by (cases r) (simp_all add: succeeds_def)

lemma price_eq: "get_entry finance_inputs c k = Inr v \<Longrightarrow> price finance_inputs c k = v"
  by (simp add: price_def)

lemma priced_present: "priced finance_inputs c \<Longrightarrow> finance_inputs c \<noteq> None"
  by (auto simp add: priced_def succeeds_def get_entry_def split: option.splits)

lemma get_entry_missing: "finance_inputs c = None \<Longrightarrow> get_entry finance_inputs c k = Inl (KeyError c)"
  by (simp add: get_entry_def)

lemma float_pow_int_nonneg: "0 \<le> n \<Longrightarrow> float_pow_int x n = Inr (x powi n)"
  by (simp add: float_pow_int_def)

lemma capital_of_eq:
  assumes "priced finance_inputs c" and "0 \<le> installation_year"
  shows "capital_of finance_inputs c component_size installation_year =
           Inr (capital_formula finance_inputs c component_size installation_year)"
proof -
  from assms(1) obtain a b where a: "get_entry finance_inputs c COST = Inr a"
    and b: "get_entry finance_inputs c COST_DECREASE = Inr b"
    unfolding priced_def by (metis succeedsE)
  show ?thesis
    using assms(2)
    by (simp add: capital_of_def capital_formula_def component_cost_def a b and_then_Inr
        price_eq float_pow_int_nonneg Let_def mult.commute)
qed

lemma installation_of_eq:
  assumes "priced finance_inputs c" and "0 \<le> installation_year"
  shows "installation_of finance_inputs c component_size installation_year =
           Inr (installation_formula finance_inputs c component_size installation_year)"
proof -
  from assms(1) obtain a b where a: "get_entry finance_inputs c INSTALLATION_COST = Inr a"
    and b: "get_entry finance_inputs c INSTALLATION_COST_DECREASE = Inr b"
    unfolding priced_def by (metis succeedsE)
  show ?thesis
    using assms(2)
    by (simp add: installation_of_def installation_formula_def component_installation_cost_def
        a b and_then_Inr price_eq float_pow_int_nonneg Let_def)
qed

lemma capital_of_missing:
  "finance_inputs c = None \<Longrightarrow>
     capital_of finance_inputs c component_size installation_year = Inl (KeyError c)"
  by (simp add: capital_of_def get_entry_missing and_then_Inl)

lemma installation_of_missing:
  "finance_inputs c = None \<Longrightarrow>
     installation_of finance_inputs c component_size installation_year = Inl (KeyError c)"
  by (simp add: installation_of_def get_entry_missing and_then_Inl)

lemma require_entry_present:
  "finance_inputs c \<noteq> None \<Longrightarrow> require_entry finance_inputs c s logger err = Inr ()"
  by (auto simp add: require_entry_def and_then_Inr)

lemma require_entry_not_positive:
  "\<not> 0 < s \<Longrightarrow> require_entry finance_inputs c (Num s) logger err = Inr ()"
  by (simp add: require_entry_def gt_zero_def and_then_Inr)

lemma require_entry_missing:
  "finance_inputs c = None \<Longrightarrow> 0 < s \<Longrightarrow>
     require_entry finance_inputs c (Num s) LoggerObj err = Inl err"
  by (simp add: require_entry_def gt_zero_def log_error_def and_then_Inr)

lemma require_entry_optional:
  "0 < s \<longrightarrow> priced finance_inputs c \<Longrightarrow>
     require_entry finance_inputs c (Num s) logger err = Inr ()"
  by (cases "0 < s") (simp_all add: require_entry_present priced_present require_entry_not_positive)

lemma optional_costs_eq:
  assumes "0 < s \<longrightarrow> priced finance_inputs c" and "0 \<le> installation_year"
  shows "optional_costs (0 < s) (capital_of finance_inputs c s' installation_year)
           (installation_of finance_inputs c s installation_year) =
         Inr (if 0 < s
              then (capital_formula finance_inputs c s' installation_year,
                    installation_formula finance_inputs c s installation_year)
              else (0, 0))"
  using assms by (simp add: optional_costs_def capital_of_eq installation_of_eq and_then_Inr)

text \<open>The value of the code's total where every look-up succeeds, with the sizes the code passes.\<close>

lemma get_total_equipment_cost_eq:
  assumes "priced finance_inputs BOS" and "priced finance_inputs DIESEL"
    and "priced finance_inputs PV" and "priced finance_inputs STORAGE"
    and "succeeds (get_entry finance_inputs MISC COST)"
    and "0 < clean_water_tanks \<longrightarrow> priced finance_inputs CLEAN_WATER_TANK"
    and "0 < hot_water_tanks \<longrightarrow> priced finance_inputs HOT_WATER_TANK"
    and "0 < pvt_array_size \<longrightarrow> priced finance_inputs PV_T"
    and "0 \<le> installation_year"
  shows "get_total_equipment_cost clean_water_tanks diesel_size finance_inputs
           (Num hot_water_tanks) logger pv_array_size pvt_array_size storage_size
           installation_year =
         Inr (capital_formula finance_inputs BOS pv_array_size installation_year
              + present_cost finance_inputs CLEAN_WATER_TANK clean_water_tanks installation_year
              + capital_formula finance_inputs DIESEL diesel_size installation_year
              + installation_formula finance_inputs DIESEL pv_array_size installation_year
              + present_cost finance_inputs HOT_WATER_TANK hot_water_tanks installation_year
              + (pv_array_size + diesel_size) * price finance_inputs MISC COST
              + capital_formula finance_inputs PV pv_array_size installation_year
              + installation_formula finance_inputs PV pv_array_size installation_year
              + (if 0 < pvt_array_size
                 then capital_formula finance_inputs PV_T pv_array_size installation_year
                      + installation_formula finance_inputs PV_T pvt_array_size installation_year
                 else 0)
              + capital_formula finance_inputs STORAGE storage_size installation_year)"
proof -
  from assms(5) obtain m where m: "get_entry finance_inputs MISC COST = Inr m"
    by (rule succeedsE)
  note y = \<open>0 \<le> installation_year\<close>
  show ?thesis
    unfolding get_total_equipment_cost_def
    by (simp add: capital_of_eq [OF assms(1) y] capital_of_eq [OF assms(2) y]
        capital_of_eq [OF assms(3) y] capital_of_eq [OF assms(4) y]
        installation_of_eq [OF assms(2) y] installation_of_eq [OF assms(3) y]
        require_entry_optional [OF assms(6)] require_entry_optional [OF assms(7)]
        require_entry_optional [OF assms(8)]
        optional_costs_eq [OF assms(6) y] optional_costs_eq [OF assms(7) y]
        optional_costs_eq [OF assms(8) y]
        and_then_Inr gt_zero_def m price_eq [OF m] misc_costs_def present_cost_def Let_def)
qed


lemma example_lookup:
  "example_inputs BOS = Some (example_entry 2)"
  "example_inputs DIESEL = Some (example_entry 3)"
  "example_inputs PV = Some (example_entry 5)"
  "example_inputs STORAGE = Some (example_entry 7)"
  "example_inputs MISC = Some (example_entry 1)"
  "example_inputs DISCOUNT_RATE = Some (Scalar 0)"
  "example_inputs GENERAL_OM = Some (Scalar 0)"
  "example_inputs CLEAN_WATER_TANK = None"
  "example_inputs HOT_WATER_TANK = None"
  "example_inputs PV_T = None"
  by (simp_all add: example_inputs_def key_defs)

lemma example_entry_lookup:
  "get_entry example_inputs BOS COST = Inr 2"
  "get_entry example_inputs DIESEL COST = Inr 3"
  "get_entry example_inputs PV COST = Inr 5"
  "get_entry example_inputs STORAGE COST = Inr 7"
  "get_entry example_inputs MISC COST = Inr 1"
  "c \<in> {BOS, DIESEL, PV, STORAGE, MISC} \<Longrightarrow> get_entry example_inputs c COST_DECREASE = Inr 0"
  "c \<in> {BOS, DIESEL, PV, STORAGE, MISC} \<Longrightarrow> get_entry example_inputs c OM = Inr 0"
  by (auto simp add: get_entry_def example_lookup example_entry_def COST_def COST_DECREASE_def
      OM_def)

lemma example_priced:
  "priced example_inputs BOS" "priced example_inputs DIESEL" "priced example_inputs PV"
  "priced example_inputs STORAGE" "priced example_inputs MISC"
  by (simp_all add: priced_def succeeds_def example_entry_lookup INSTALLATION_COST_def
      INSTALLATION_COST_DECREASE_def COST_def [symmetric] COST_DECREASE_def [symmetric])

lemma example_formulas:
  "capital_formula example_inputs BOS s 0 = s * 2"
  "capital_formula example_inputs DIESEL s 0 = s * 3"
  "capital_formula example_inputs PV s 0 = s * 5"
  "capital_formula example_inputs STORAGE s 0 = s * 7"
  "installation_formula example_inputs BOS s 0 = s * 2"
  "installation_formula example_inputs DIESEL s 0 = s * 3"
  "installation_formula example_inputs PV s 0 = s * 5"
  "installation_formula example_inputs STORAGE s 0 = s * 7"
  "price example_inputs MISC COST = 1"
  by (simp_all add: capital_formula_def installation_formula_def price_def example_entry_lookup
      INSTALLATION_COST_def INSTALLATION_COST_DECREASE_def COST_def [symmetric]
      COST_DECREASE_def [symmetric])

lemma fails_and_then: "(\<And>v. \<exists>e. f v = Inl e) \<Longrightarrow> \<exists>e. and_then r f = Inl e"
  by (cases r) (simp_all add: and_then_def)

lemma fails_first: "\<exists>e. r = Inl e \<Longrightarrow> \<exists>e. and_then r f = Inl e"
  by (auto simp add: and_then_def)

lemma logger_as_tank_count:
  "\<exists>e. get_total_equipment_cost clean_water_tanks diesel_size finance_inputs LoggerObj logger
          pv_array_size pvt_array_size storage_size installation_year = Inl e"
  unfolding get_total_equipment_cost_def
  apply (rule fails_and_then)
  apply (rule fails_and_then)
  apply (rule fails_and_then)
  apply (simp only: split_beta)
  apply (rule fails_and_then)
  apply (rule fails_and_then)
  apply (rule fails_and_then)
  apply (simp add: gt_zero_def and_then_Inl)
  done

lemma discounted_equipment_cost_fails:
  "\<exists>e. discounted_equipment_cost clean_water_tanks diesel_size finance_inputs LoggerObj
          pv_array_size pvt_array_size storage_size installation_year = Inl e"
  unfolding discounted_equipment_cost_def
  by (rule fails_first) (rule logger_as_tank_count)

lemma get_entry_other:
  "c \<noteq> c' \<Longrightarrow> get_entry (finance_inputs(c' := x)) c k = get_entry finance_inputs c k"
  by (simp add: get_entry_def)

lemma capital_of_other:
  "c \<noteq> c' \<Longrightarrow> capital_of (finance_inputs(c' := x)) c s y = capital_of finance_inputs c s y"
  by (simp add: capital_of_def get_entry_other)

lemma installation_of_other:
  "c \<noteq> c' \<Longrightarrow>
     installation_of (finance_inputs(c' := x)) c s y = installation_of finance_inputs c s y"
  by (simp add: installation_of_def get_entry_other)

lemma require_entry_other:
  "c \<noteq> c' \<Longrightarrow>
     require_entry (finance_inputs(c' := x)) c s logger err =
     require_entry finance_inputs c s logger err"
  by (simp add: require_entry_def)

lemma optional_costs_absent: "optional_costs False capital installation = Inr (0, 0)"
  by (simp add: optional_costs_def)

lemma clean_water_distinct:
  "BOS \<noteq> CLEAN_WATER_TANK" "DIESEL \<noteq> CLEAN_WATER_TANK" "HOT_WATER_TANK \<noteq> CLEAN_WATER_TANK"
  "PV \<noteq> CLEAN_WATER_TANK" "PV_T \<noteq> CLEAN_WATER_TANK" "STORAGE \<noteq> CLEAN_WATER_TANK"
  "MISC \<noteq> CLEAN_WATER_TANK"
  by (simp_all add: key_defs)

lemma get_scalar_missing: "finance_inputs k = None \<Longrightarrow> get_scalar finance_inputs k = Inl (KeyError k)"
  by (simp add: get_scalar_def)

lemma component_om_succeeds:
  assumes "get_scalar finance_inputs DISCOUNT_RATE = Inr r" and "- 1 < r"
    and "start_year < end_year"
  shows "succeeds (component_om om s finance_inputs start_year end_year)"
  unfolding component_om_def Let_def
  using discounted_energy_total_eq [OF assms(1,2), of _ start_year end_year] assms(3)
  by (simp add: succeeds_def)

lemma om_of_missing:
  "finance_inputs c = None \<Longrightarrow> om_of finance_inputs c s start_year end_year = Inl (KeyError c)"
  by (simp add: om_of_def get_entry_missing and_then_Inl)

lemma om_of_succeeds:
  assumes "succeeds (get_entry finance_inputs c OM)"
    and "get_scalar finance_inputs DISCOUNT_RATE = Inr r" and "- 1 < r"
    and "start_year < end_year"
  shows "succeeds (om_of finance_inputs c s start_year end_year)"
proof -
  from assms(1) obtain om where "get_entry finance_inputs c OM = Inr om" by (rule succeedsE)
  then show ?thesis
    using component_om_succeeds [OF assms(2-4)] by (simp add: om_of_def and_then_Inr)
qed

lemma equipment_first_missing:
  assumes "equipment_well_formed finance_inputs" and "0 \<le> installation_year"
    and "X = get_total_equipment_cost 0 diesel_size finance_inputs (Num 0) LoggerObj
               pv_array_size 0 storage_size installation_year"
  shows "(finance_inputs BOS = None \<longrightarrow> X = Inl (KeyError BOS))
       \<and> (finance_inputs BOS \<noteq> None \<and> finance_inputs DIESEL = None
            \<longrightarrow> X = Inl (KeyError DIESEL))
       \<and> (finance_inputs BOS \<noteq> None \<and> finance_inputs DIESEL \<noteq> None
            \<and> finance_inputs PV = None \<longrightarrow> X = Inl (KeyError PV))
       \<and> (finance_inputs BOS \<noteq> None \<and> finance_inputs DIESEL \<noteq> None
            \<and> finance_inputs PV \<noteq> None \<and> finance_inputs STORAGE = None
            \<longrightarrow> X = Inl (KeyError STORAGE))
       \<and> (finance_inputs BOS \<noteq> None \<and> finance_inputs DIESEL \<noteq> None
            \<and> finance_inputs PV \<noteq> None \<and> finance_inputs STORAGE \<noteq> None
            \<and> finance_inputs MISC = None \<longrightarrow> X = Inl (KeyError MISC))
       \<and> (finance_inputs BOS \<noteq> None \<and> finance_inputs DIESEL \<noteq> None
            \<and> finance_inputs PV \<noteq> None \<and> finance_inputs STORAGE \<noteq> None
            \<and> finance_inputs MISC \<noteq> None \<longrightarrow> succeeds X)"
proof -
  note y = assms(2)
  have p: "priced finance_inputs c"
    if "finance_inputs c \<noteq> None" "c \<in> {BOS, DIESEL, PV, STORAGE}" for c
    using assms(1) that unfolding equipment_well_formed_def by auto
  have m: "succeeds (get_entry finance_inputs MISC COST)" if "finance_inputs MISC \<noteq> None"
    using assms(1) that unfolding equipment_well_formed_def by blast
  have bos: "X = Inl (KeyError BOS)" if "finance_inputs BOS = None"
    using that unfolding assms(3)
    by (simp add: get_total_equipment_cost_def capital_of_missing and_then_Inl)
  have diesel: "X = Inl (KeyError DIESEL)"
    if "finance_inputs BOS \<noteq> None" "finance_inputs DIESEL = None"
    using that(2) p [OF that(1)] y unfolding assms(3)
    by (simp add: get_total_equipment_cost_def capital_of_missing and_then_Inl and_then_Inr
        capital_of_eq require_entry_not_positive optional_costs_absent)
  have pv: "X = Inl (KeyError PV)"
    if "finance_inputs BOS \<noteq> None" "finance_inputs DIESEL \<noteq> None" "finance_inputs PV = None"
    using that(3) p [OF that(1)] p [OF that(2)] y unfolding assms(3)
    by (simp add: get_total_equipment_cost_def capital_of_missing and_then_Inl and_then_Inr
        capital_of_eq installation_of_eq require_entry_not_positive optional_costs_absent
        gt_zero_def)
  have storage: "X = Inl (KeyError STORAGE)"
    if "finance_inputs BOS \<noteq> None" "finance_inputs DIESEL \<noteq> None" "finance_inputs PV \<noteq> None"
       "finance_inputs STORAGE = None"
    using that(4) p [OF that(1)] p [OF that(2)] p [OF that(3)] y unfolding assms(3)
    by (simp add: get_total_equipment_cost_def capital_of_missing and_then_Inl and_then_Inr
        capital_of_eq installation_of_eq require_entry_not_positive optional_costs_absent
        gt_zero_def)
  have misc: "X = Inl (KeyError MISC)"
    if "finance_inputs BOS \<noteq> None" "finance_inputs DIESEL \<noteq> None" "finance_inputs PV \<noteq> None"
       "finance_inputs STORAGE \<noteq> None" "finance_inputs MISC = None"
    using that(5) p [OF that(1)] p [OF that(2)] p [OF that(3)] p [OF that(4)] y
    unfolding assms(3)
    by (simp add: get_total_equipment_cost_def capital_of_missing and_then_Inl and_then_Inr
        capital_of_eq installation_of_eq require_entry_not_positive optional_costs_absent
        gt_zero_def get_entry_missing)
  have full: "succeeds X"
    if "finance_inputs BOS \<noteq> None" "finance_inputs DIESEL \<noteq> None" "finance_inputs PV \<noteq> None"
       "finance_inputs STORAGE \<noteq> None" "finance_inputs MISC \<noteq> None"
    using p [OF that(1)] p [OF that(2)] p [OF that(3)] p [OF that(4)] m [OF that(5)] y
    unfolding assms(3)
    by (subst get_total_equipment_cost_eq) (simp_all add: succeeds_def)
  from bos diesel pv storage misc full show ?thesis by blast
qed

lemma om_first_missing:
  assumes "om_well_formed finance_inputs" and "start_year < end_year"
    and "X = total_om 0 diesel_size finance_inputs 0 pv_array_size 0 storage_size
               start_year end_year"
  shows "(finance_inputs DIESEL = None \<longrightarrow> X = Inl (KeyError DIESEL))
       \<and> (finance_inputs DIESEL \<noteq> None \<and> finance_inputs GENERAL_OM = None
            \<longrightarrow> X = Inl (KeyError GENERAL_OM))
       \<and> (finance_inputs DIESEL \<noteq> None \<and> finance_inputs GENERAL_OM \<noteq> None
            \<and> finance_inputs PV = None \<longrightarrow> X = Inl (KeyError PV))
       \<and> (finance_inputs DIESEL \<noteq> None \<and> finance_inputs GENERAL_OM \<noteq> None
            \<and> finance_inputs PV \<noteq> None \<and> finance_inputs STORAGE = None
            \<longrightarrow> X = Inl (KeyError STORAGE))
       \<and> (finance_inputs DIESEL \<noteq> None \<and> finance_inputs GENERAL_OM \<noteq> None
            \<and> finance_inputs PV \<noteq> None \<and> finance_inputs STORAGE \<noteq> None
            \<longrightarrow> succeeds X)"
proof -
  from assms(1) obtain r where r: "get_scalar finance_inputs DISCOUNT_RATE = Inr r" "- 1 < r"
    unfolding om_well_formed_def by (auto split: sum.splits)
  have o: "\<exists>v. om_of finance_inputs c s start_year end_year = Inr v"
    if "finance_inputs c \<noteq> None" "c \<in> {DIESEL, PV, STORAGE}" for c s
  proof -
    have "succeeds (get_entry finance_inputs c OM)"
      using assms(1) that unfolding om_well_formed_def by auto
    then have "succeeds (om_of finance_inputs c s start_year end_year)"
      using r assms(2) by (rule om_of_succeeds)
    then show ?thesis by (blast elim: succeedsE)
  qed
  have g: "\<exists>v. and_then (get_scalar finance_inputs GENERAL_OM)
                 (\<lambda>om. component_om om 1 finance_inputs start_year end_year) = Inr v"
    if "finance_inputs GENERAL_OM \<noteq> None"
  proof -
    have "succeeds (get_scalar finance_inputs GENERAL_OM)"
      using assms(1) that unfolding om_well_formed_def by blast
    then obtain om where "get_scalar finance_inputs GENERAL_OM = Inr om" by (rule succeedsE)
    moreover have "succeeds (component_om om 1 finance_inputs start_year end_year)"
      using r assms(2) by (rule component_om_succeeds)
    ultimately show ?thesis by (auto simp add: and_then_Inr elim: succeedsE)
  qed
  have diesel: "X = Inl (KeyError DIESEL)" if "finance_inputs DIESEL = None"
    using that unfolding assms(3)
    by (simp add: total_om_def om_of_missing and_then_Inl and_then_Inr
        require_entry_not_positive)
  have general: "X = Inl (KeyError GENERAL_OM)"
    if "finance_inputs DIESEL \<noteq> None" "finance_inputs GENERAL_OM = None"
  proof -
    from that(1) obtain d where
      "om_of finance_inputs DIESEL diesel_size start_year end_year = Inr d"
      using o [of DIESEL] by blast
    then show ?thesis using that(2) unfolding assms(3)
      by (simp add: total_om_def get_scalar_missing and_then_Inl and_then_Inr
          require_entry_not_positive)
  qed
  have pv: "X = Inl (KeyError PV)"
    if "finance_inputs DIESEL \<noteq> None" "finance_inputs GENERAL_OM \<noteq> None"
       "finance_inputs PV = None"
  proof -
    from that(1) obtain d where
      "om_of finance_inputs DIESEL diesel_size start_year end_year = Inr d"
      using o [of DIESEL] by blast
    moreover from that(2) obtain v where
      "and_then (get_scalar finance_inputs GENERAL_OM)
         (\<lambda>om. component_om om 1 finance_inputs start_year end_year) = Inr v"
      using g by blast
    ultimately show ?thesis using that(3) unfolding assms(3)
      by (simp add: total_om_def om_of_missing and_then_Inl and_then_Inr
          require_entry_not_positive)
  qed
  have storage: "X = Inl (KeyError STORAGE)"
    if "finance_inputs DIESEL \<noteq> None" "finance_inputs GENERAL_OM \<noteq> None"
       "finance_inputs PV \<noteq> None" "finance_inputs STORAGE = None"
  proof -
    from that(1) obtain d where
      "om_of finance_inputs DIESEL diesel_size start_year end_year = Inr d"
      using o [of DIESEL] by blast
    moreover from that(2) obtain v where
      "and_then (get_scalar finance_inputs GENERAL_OM)
         (\<lambda>om. component_om om 1 finance_inputs start_year end_year) = Inr v"
      using g by blast
    moreover from that(3) obtain p where
      "om_of finance_inputs PV pv_array_size start_year end_year = Inr p"
      using o [of PV] by blast
    ultimately show ?thesis using that(4) unfolding assms(3)
      by (simp add: total_om_def om_of_missing and_then_Inl and_then_Inr
          require_entry_not_positive)
  qed
  have full: "succeeds X"
    if "finance_inputs DIESEL \<noteq> None" "finance_inputs GENERAL_OM \<noteq> None"
       "finance_inputs PV \<noteq> None" "finance_inputs STORAGE \<noteq> None"
  proof -
    from that(1) obtain d where
      "om_of finance_inputs DIESEL diesel_size start_year end_year = Inr d"
      using o [of DIESEL] by blast
    moreover from that(2) obtain v where
      "and_then (get_scalar finance_inputs GENERAL_OM)
         (\<lambda>om. component_om om 1 finance_inputs start_year end_year) = Inr v"
      using g by blast
    moreover from that(3) obtain p where
      "om_of finance_inputs PV pv_array_size start_year end_year = Inr p"
      using o [of PV] by blast
    moreover from that(4) obtain s where
      "om_of finance_inputs STORAGE storage_size start_year end_year = Inr s"
      using o [of STORAGE] by blast
    ultimately show ?thesis unfolding assms(3)
      by (simp add: total_om_def and_then_Inr require_entry_not_positive succeeds_def)
  qed
  from diesel general pv storage full show ?thesis by blast
qed


lemma example_without_pv:
  "(example_inputs(PV := None)) BOS = Some (example_entry 2)"
  "(example_inputs(PV := None)) DIESEL = Some (example_entry 3)"
  "(example_inputs(PV := None)) PV = None"
  "(example_inputs(PV := None)) STORAGE = Some (example_entry 7)"
  "(example_inputs(PV := None)) MISC = Some (example_entry 1)"
  "(example_inputs(PV := None)) DISCOUNT_RATE = Some (Scalar 0)"
  "(example_inputs(PV := None)) GENERAL_OM = Some (Scalar 0)"
  by (simp_all add: example_inputs_def key_defs)

lemma example_entry_complete:
  "finance_inputs c = Some (example_entry v) \<Longrightarrow> priced finance_inputs c"
  "finance_inputs c = Some (example_entry v) \<Longrightarrow> succeeds (get_entry finance_inputs c COST)"
  "finance_inputs c = Some (example_entry v) \<Longrightarrow> succeeds (get_entry finance_inputs c OM)"
  by (simp_all add: priced_def succeeds_def get_entry_def example_entry_def key_defs)

lemma succeeds_simps: "succeeds (Inr v)" "\<not> succeeds (Inl e)"
  by (simp_all add: succeeds_def)

lemma example_well_formed:
  "equipment_well_formed example_inputs" "om_well_formed example_inputs"
  "equipment_well_formed (example_inputs(PV := None))"
  "om_well_formed (example_inputs(PV := None))"
  unfolding equipment_well_formed_def om_well_formed_def
  by (simp_all add: example_entry_complete example_lookup example_without_pv get_scalar_def
      succeeds_simps del: fun_upd_apply)

lemma full_example_lookup:
  "full_example BOS = Some (example_entry 2)"
  "full_example DIESEL = Some (example_entry 3)"
  "full_example PV = Some (example_entry 5)"
  "full_example STORAGE = Some (example_entry 7)"
  "full_example MISC = Some (example_entry 1)"
  "full_example PV_T = Some (example_entry 11)"
  "full_example CLEAN_WATER_TANK = Some (example_entry 13)"
  "full_example HOT_WATER_TANK = Some (example_entry 17)"
  by (simp_all add: full_example_def example_inputs_def key_defs)

lemma full_example_priced:
  "priced full_example BOS" "priced full_example DIESEL" "priced full_example PV"
  "priced full_example STORAGE" "priced full_example PV_T"
  "priced full_example CLEAN_WATER_TANK" "priced full_example HOT_WATER_TANK"
  "succeeds (get_entry full_example MISC COST)"
  by (simp_all add: priced_def succeeds_def get_entry_def full_example_lookup example_entry_def
      COST_def COST_DECREASE_def INSTALLATION_COST_def INSTALLATION_COST_DECREASE_def OM_def)

lemma full_example_formulas:
  "capital_formula full_example BOS s y = s * 2"
  "capital_formula full_example DIESEL s y = s * 3"
  "installation_formula full_example DIESEL s y = s * 3"
  "capital_formula full_example PV s y = s * 5"
  "installation_formula full_example PV s y = s * 5"
  "capital_formula full_example STORAGE s y = s * 7"
  "capital_formula full_example PV_T s y = s * 11"
  "installation_formula full_example PV_T s y = s * 11"
  "capital_formula full_example CLEAN_WATER_TANK s y = s * 13"
  "installation_formula full_example CLEAN_WATER_TANK s y = s * 13"
  "capital_formula full_example HOT_WATER_TANK s y = s * 17"
  "installation_formula full_example HOT_WATER_TANK s y = s * 17"
  "price full_example MISC COST = 1"
  by (simp_all add: capital_formula_def installation_formula_def price_def get_entry_def
      full_example_lookup example_entry_def COST_def COST_DECREASE_def INSTALLATION_COST_def
      INSTALLATION_COST_DECREASE_def OM_def)


















lemma clean_water_entry_unused:
  "get_total_equipment_cost 0 diesel_size (finance_inputs(CLEAN_WATER_TANK := x))
     hot_water_tanks logger pv_array_size pvt_array_size storage_size installation_year
   = get_total_equipment_cost 0 diesel_size finance_inputs hot_water_tanks logger
       pv_array_size pvt_array_size storage_size installation_year"
  by (simp add: get_total_equipment_cost_def capital_of_other installation_of_other
      require_entry_other get_entry_other clean_water_distinct require_entry_not_positive
      optional_costs_absent cong: pyval.case_cong)























section \<open>The discount model\<close>

text \<open>
  C4: for a discount rate above \<open>-1\<close>, \<open>discounted_fraction\<close> returns one value per
  day index \<open>t\<close> from \<open>start_year * 365\<close> up to, not including, \<open>end_year * 365\<close>, so
  \<open>(end_year - start_year) * 365\<close> values; the value for day \<open>t\<close>, counted from the
  epoch, is \<open>(1 + r_d)\<close> to the power \<open>- t\<close> with
  \<open>r_d = (1 + discount_rate) powr (1 / 365) - 1\<close>; with the rate \<open>0\<close> every value is \<open>1\<close>.
\<close>

theorem discounted_fraction_values:
  assumes "- 1 < discount_rate"
  shows "\<exists>r_d fs. daily_discount_rate discount_rate = Inr r_d
           \<and> r_d = (1 + discount_rate) powr (1 / 365) - 1
           \<and> discounted_fraction discount_rate start_year end_year = Inr fs
           \<and> length fs = nat ((end_year - start_year) * 365)
           \<and> (\<forall>i<length fs. fs ! i = (1 + r_d) powi (- (start_year * 365 + int i)))
           \<and> (discount_rate = 0 \<longrightarrow> (\<forall>i<length fs. fs ! i = 1))"
proof -
  let ?rd = "(1 + discount_rate) powr (1 / 365) - 1"
  let ?fs = "map (\<lambda>t. (1 + ?rd) powi (- t)) [start_year * 365..end_year * 365 - 1]"
  have d: "daily_discount_rate discount_rate = Inr ?rd"
    using assms by (simp add: daily_discount_rate_def)
  have f: "discounted_fraction discount_rate start_year end_year = Inr ?fs"
    using assms by (rule discounted_fraction_eq)
  have l: "length ?fs = nat ((end_year - start_year) * 365)"
    by (simp only: length_map length_days)
  have v: "?fs ! i = (1 + ?rd) powi (- (start_year * 365 + int i))" if "i < length ?fs" for i
    using that by (simp only: l nth_map length_map length_days nth_days)
  have z: "?fs ! i = 1" if "i < length ?fs" "discount_rate = 0" for i
  proof -
    from that(1) have "?fs ! i = (1 + ?rd) powi (- (start_year * 365 + int i))" by (rule v)
    also have "\<dots> = 1" using that(2) by simp
    finally show ?thesis .
  qed
  from d f l v z show ?thesis by blast
qed

theorem discounted_fraction_values_witness:
  "discounted_fraction 0 0 1 = Inr (replicate 365 1)"
proof -
  have h: "- 1 < (0::real)" by simp
  obtain fs where f: "discounted_fraction 0 0 1 = Inr fs"
    and l: "length fs = nat ((1 - 0) * 365)"
    and z: "\<forall>i<length fs. fs ! i = 1"
    using discounted_fraction_values [OF h, of 0 1] by auto
  have "fs = replicate 365 1"
    using l z by (intro nth_equalityI) simp_all
  with f show ?thesis by simp
qed




section \<open>Discounted totals\<close>

text \<open>
  C2, as the code has it: \<open>discounted_energy_total\<close> checks no length. With a discount
  rate above \<open>-1\<close>, and the series or the window not empty, it returns the sum of the
  products of the series with the discount fractions over the day positions that both
  have; these are all positions when the lengths agree.
\<close>

theorem discounted_energy_total_value:
  assumes "get_scalar finance_inputs DISCOUNT_RATE = Inr r" and "- 1 < r"
    and "total_daily \<noteq> [] \<or> start_year < end_year"
  shows "\<exists>fs. discounted_fraction r start_year end_year = Inr fs
           \<and> length fs = nat ((end_year - start_year) * 365)
           \<and> discounted_energy_total finance_inputs total_daily start_year end_year =
               Inr (\<Sum>i<min (length fs) (length total_daily). fs ! i * total_daily ! i)"
proof -
  let ?fs = "map (\<lambda>t. (1 + ((1 + r) powr (1 / 365) - 1)) powi (- t))
               [start_year * 365..end_year * 365 - 1]"
  have f: "discounted_fraction r start_year end_year = Inr ?fs"
    using assms(2) by (rule discounted_fraction_eq)
  have l: "length ?fs = nat ((end_year - start_year) * 365)"
    by (simp only: length_map length_days)
  have v: "?fs ! i = (1 + ((1 + r) powr (1 / 365) - 1)) powi (- (start_year * 365 + int i))"
    if "i < nat ((end_year - start_year) * 365)" for i
    using that by (simp only: nth_map length_days nth_days)
  have "(\<Sum>i<min (length ?fs) (length total_daily). ?fs ! i * total_daily ! i) =
        (\<Sum>i<min (nat ((end_year - start_year) * 365)) (length total_daily).
           (1 + ((1 + r) powr (1 / 365) - 1)) powi (- (start_year * 365 + int i))
           * total_daily ! i)"
    unfolding l
  proof (intro sum.cong refl)
    fix i assume "i \<in> {..<min (nat ((end_year - start_year) * 365)) (length total_daily)}"
    then have "i < nat ((end_year - start_year) * 365)" by simp
    then show "?fs ! i * total_daily ! i =
                 (1 + ((1 + r) powr (1 / 365) - 1)) powi (- (start_year * 365 + int i))
                 * total_daily ! i"
      by (simp only: v)
  qed
  then have "discounted_energy_total finance_inputs total_daily start_year end_year =
               Inr (\<Sum>i<min (length ?fs) (length total_daily). ?fs ! i * total_daily ! i)"
    using discounted_energy_total_eq [OF assms] by (simp only:)
  with f l show ?thesis by blast
qed

theorem discounted_energy_total_value_witness:
  "discounted_energy_total [DISCOUNT_RATE \<mapsto> Scalar 0] [2, 3] 0 1 = Inr 5"
proof -
  let ?fi = "[DISCOUNT_RATE \<mapsto> Scalar 0]"
  have a: "get_scalar ?fi DISCOUNT_RATE = Inr 0" by (simp add: get_scalar_def)
  have b: "- 1 < (0::real)" by simp
  have c: "[2, 3] \<noteq> ([]::real list) \<or> (0::int) < 1" by simp
  obtain fs where f: "discounted_fraction 0 0 1 = Inr fs"
    and l: "length fs = nat ((1 - 0) * 365)"
    and t: "discounted_energy_total ?fi [2, 3] 0 1 =
              Inr (\<Sum>i<min (length fs) (length [2, 3 :: real]). fs ! i * [2, 3] ! i)"
    using discounted_energy_total_value [OF a b c] by blast
  have "fs = map (\<lambda>t. 1) [0 * 365..1 * 365 - 1]"
    using f discounted_fraction_eq [OF b, of 0 1] by (simp only: zero_rate_fraction sum.inject)
  then have "fs ! 0 = 1" "fs ! 1 = 1" by simp_all
  moreover have "min (length fs) (length [2, 3 :: real]) = 2" using l by simp
  ultimately show ?thesis using t by (simp add: lessThan_Suc numeral_2_eq_2)
qed

text \<open>
  C2, as the claim has it, fails: a series of one day over a window of \<open>365\<close> days
  raises no error and returns a value.
\<close>

theorem discounted_energy_total_no_length_check:
  "length [1 :: real] \<noteq> nat ((1 - 0) * 365)
   \<and> discounted_energy_total [DISCOUNT_RATE \<mapsto> Scalar 0] [1] 0 1 = Inr 1"
proof -
  let ?fi = "[DISCOUNT_RATE \<mapsto> Scalar 0]"
  have a: "get_scalar ?fi DISCOUNT_RATE = Inr 0" by (simp add: get_scalar_def)
  have b: "- 1 < (0::real)" by simp
  have c: "[1] \<noteq> ([]::real list) \<or> (0::int) < 1" by simp
  have "discounted_energy_total ?fi [1] 0 1 = Inr 1"
    using discounted_energy_total_eq [OF a b c] by simp
  then show ?thesis by simp
qed

text \<open>
  C3: for a window with \<open>start_year < end_year\<close>, \<open>component_om\<close> replicates the
  daily value \<open>size * unit_om_cost / 365\<close> over \<open>(end_year - start_year) * 265\<close> days
  and returns \<open>discounted_energy_total\<close> of that series over the same window; with a
  discount rate above \<open>-1\<close> in the finance inputs this is the discounted sum over the
  first \<open>(end_year - start_year) * 265\<close> days of the window.
\<close>

theorem component_om_value:
  assumes "start_year < end_year"
  shows "length (replicate (nat ((end_year - start_year) * 265))
                   (component_size * component_om_cost / 365))
           = nat ((end_year - start_year) * 265)
         \<and> component_om component_om_cost component_size finance_inputs start_year end_year =
             discounted_energy_total finance_inputs
               (replicate (nat ((end_year - start_year) * 265))
                  (component_size * component_om_cost / 365)) start_year end_year
         \<and> (get_scalar finance_inputs DISCOUNT_RATE = Inr r \<and> - 1 < r \<longrightarrow>
             component_om component_om_cost component_size finance_inputs start_year end_year =
               Inr (\<Sum>i<nat ((end_year - start_year) * 265).
                      (1 + ((1 + r) powr (1 / 365) - 1)) powi (- (start_year * 365 + int i))
                      * (component_size * component_om_cost / 365)))"
proof -
  let ?n = "nat ((end_year - start_year) * 265)"
  let ?c = "component_size * component_om_cost / 365"
  have n: "nat (end_year - start_year) * 265 = ?n"
    using assms by (simp add: nat_mult_distrib)
  have d: "component_om component_om_cost component_size finance_inputs start_year end_year =
             discounted_energy_total finance_inputs (replicate ?n ?c) start_year end_year"
    by (simp only: component_om_def Let_def n)
  have m: "min (nat ((end_year - start_year) * 365)) (length (replicate ?n ?c)) = ?n"
    using assms by simp
  have v: "component_om component_om_cost component_size finance_inputs start_year end_year =
             Inr (\<Sum>i<?n. (1 + ((1 + r) powr (1 / 365) - 1)) powi (- (start_year * 365 + int i))
                           * ?c)"
    if r: "get_scalar finance_inputs DISCOUNT_RATE = Inr r" "- 1 < r"
  proof -
    have "discounted_energy_total finance_inputs (replicate ?n ?c) start_year end_year =
            Inr (\<Sum>i<?n. (1 + ((1 + r) powr (1 / 365) - 1)) powi (- (start_year * 365 + int i))
                          * replicate ?n ?c ! i)"
      using discounted_energy_total_eq [OF r, of "replicate ?n ?c" start_year end_year]
        assms unfolding m by blast
    also have "(\<Sum>i<?n. (1 + ((1 + r) powr (1 / 365) - 1)) powi (- (start_year * 365 + int i))
                          * replicate ?n ?c ! i) =
               (\<Sum>i<?n. (1 + ((1 + r) powr (1 / 365) - 1)) powi (- (start_year * 365 + int i))
                          * ?c)"
      by (intro sum.cong refl) simp
    finally show ?thesis using d by simp
  qed
  from d v show ?thesis by simp
qed

theorem component_om_value_witness:
  "component_om 365 1 [DISCOUNT_RATE \<mapsto> Scalar 0] 0 1 = Inr 265"
proof -
  let ?fi = "[DISCOUNT_RATE \<mapsto> Scalar 0]"
  have a: "get_scalar ?fi DISCOUNT_RATE = Inr 0 \<and> - 1 < (0::real)"
    by (simp add: get_scalar_def)
  have c: "(0::int) < 1" by simp
  have "component_om 365 1 ?fi 0 1 =
          Inr (\<Sum>i<nat ((1 - 0) * 265).
                 (1 + ((1 + 0) powr (1 / 365) - 1)) powi (- (0 * 365 + int i)) * (1 * 365 / 365))"
    using component_om_value [OF c, of 1 365 ?fi 0] a by blast
  then show ?thesis by simp
qed

section \<open>Connection costs\<close>

text \<open>
  C5: with a connection cost for the households and a discount rate in the finance
  inputs, \<open>connections_expenditure\<close> returns
  \<open>(max households - min households) * connection_cost * (1 - discount_rate)\<close> to the
  power \<open>installation_year\<close>, for every series that is not empty and every year for
  which that power exists; for the series \<open>[10, 10, 10, 20, 20]\<close>, the connection cost
  \<open>50\<close>, the rate \<open>0.1\<close> and the year \<open>2\<close> it returns \<open>405\<close>.
\<close>

theorem connections_expenditure_value:
  assumes "get_entry finance_inputs HOUSEHOLDS CONNECTION_COST = Inr connection_cost"
    and "get_scalar finance_inputs DISCOUNT_RATE = Inr discount_rate"
    and "households \<noteq> []"
    and "discount_rate \<noteq> 1 \<or> 0 \<le> installation_year"
  shows "connections_expenditure finance_inputs households installation_year =
           Inr ((Max (set households) - Min (set households)) * connection_cost
                * (1 - discount_rate) powi installation_year)"
  using assms
  by (auto simp add: connections_expenditure_def and_then_def float_pow_int_def Let_def)

theorem connections_expenditure_value_witness:
  "connections_expenditure
     [HOUSEHOLDS \<mapsto> Entry [CONNECTION_COST \<mapsto> PyInt 50], DISCOUNT_RATE \<mapsto> Scalar (1 / 10)]
     [10, 10, 10, 20, 20] 2 = Inr 405"
proof -
  let ?fi = "[HOUSEHOLDS \<mapsto> Entry [CONNECTION_COST \<mapsto> PyInt 50], DISCOUNT_RATE \<mapsto> Scalar (1 / 10)]"
  have a: "get_entry ?fi HOUSEHOLDS CONNECTION_COST = Inr 50"
    by (simp add: get_entry_def key_defs)
  have b: "get_scalar ?fi DISCOUNT_RATE = Inr (1 / 10)"
    by (simp add: get_scalar_def key_defs)
  have c: "[10, 10, 10, 20, 20] \<noteq> ([]::real list)" by simp
  have d: "(1 / 10 :: real) \<noteq> 1 \<or> (0::int) \<le> 2" by simp
  have "connections_expenditure ?fi [10, 10, 10, 20, 20] 2 =
          Inr ((Max (set [10, 10, 10, 20, 20]) - Min (set [10, 10, 10, 20, 20])) * 50
               * (1 - 1 / 10) powi 2)"
    by (rule connections_expenditure_value [OF a b c d])
  also have "\<dots> = Inr 405" by (simp add: power2_eq_square)
  finally show ?thesis .
qed

section \<open>Equipment costs\<close>

text \<open>
  C1, as the code has it by design: where every entry that is read is complete and the
  installation year is not negative, \<open>get_total_equipment_cost\<close> returns the capital
  cost of the balance of system sized by the PV array, the capital and the installation
  cost of the diesel generator, the PV array and each optional component with a
  positive size, the capital cost of the storage, and the surcharge
  \<open>(pv_array_size + diesel_size) * misc_cost\<close>; the balance of system and the storage
  have no installation cost. The statement is for sizes on which the size arguments of
  the diesel installation and of the PV-T capital cannot be told apart from the PV array
  size the code passes there.
\<close>

theorem get_total_equipment_cost_designed:
  assumes "priced finance_inputs BOS" and "priced finance_inputs DIESEL"
    and "priced finance_inputs PV" and "priced finance_inputs STORAGE"
    and "succeeds (get_entry finance_inputs MISC COST)"
    and "0 < clean_water_tanks \<longrightarrow> priced finance_inputs CLEAN_WATER_TANK"
    and "0 < hot_water_tanks \<longrightarrow> priced finance_inputs HOT_WATER_TANK"
    and "0 < pvt_array_size \<longrightarrow> priced finance_inputs PV_T"
    and "0 \<le> installation_year"
    and "diesel_size = pv_array_size"
    and "pvt_array_size \<le> 0 \<or> pvt_array_size = pv_array_size"
  shows "get_total_equipment_cost clean_water_tanks diesel_size finance_inputs
           (Num hot_water_tanks) logger pv_array_size pvt_array_size storage_size
           installation_year =
         Inr (designed_total_equipment_cost clean_water_tanks diesel_size finance_inputs
                hot_water_tanks pv_array_size pvt_array_size storage_size installation_year)"
proof -
  have "(if 0 < pvt_array_size
         then capital_formula finance_inputs PV_T pv_array_size installation_year
              + installation_formula finance_inputs PV_T pvt_array_size installation_year
         else 0) = present_cost finance_inputs PV_T pvt_array_size installation_year"
    using assms(11) by (auto simp add: present_cost_def)
  then show ?thesis
    unfolding get_total_equipment_cost_eq [OF assms(1-9)] designed_total_equipment_cost_def
    using assms(10) by simp
qed

theorem get_total_equipment_cost_designed_witness:
  "get_total_equipment_cost 1 1 full_example (Num 1) LoggerObj 1 1 1 2 = Inr 109"
proof -
  have "get_total_equipment_cost 1 1 full_example (Num 1) LoggerObj 1 1 1 2 =
          Inr (designed_total_equipment_cost 1 1 full_example 1 1 1 1 2)"
    by (rule get_total_equipment_cost_designed) (simp_all add: full_example_priced)
  then show ?thesis
    by (simp add: designed_total_equipment_cost_def present_cost_def full_example_formulas)
qed

text \<open>
  C1, as the claim has it, fails: with a storage of size \<open>1\<close> and nothing else, the
  code returns the capital cost \<open>7\<close> of the storage, the claimed sum has its
  installation cost as well.
\<close>

theorem get_total_equipment_cost_not_spec:
  "get_total_equipment_cost 0 0 example_inputs (Num 0) LoggerObj 0 0 1 0 = Inr 7
   \<and> spec_total_equipment_cost 0 0 example_inputs 0 0 0 1 0 = 14"
proof -
  have "get_total_equipment_cost 0 0 example_inputs (Num 0) LoggerObj 0 0 1 0 = Inr 7"
    by (subst get_total_equipment_cost_eq)
       (simp_all add: example_priced succeeds_def example_entry_lookup example_formulas
          present_cost_def)
  moreover have "spec_total_equipment_cost 0 0 example_inputs 0 0 0 1 0 = 14"
    by (simp add: spec_total_equipment_cost_def example_formulas present_cost_def)
  ultimately show ?thesis by simp
qed

text \<open>
  C7: with a complete entry of the balance of system, whose cost is computed first, and
  an installation year that is not negative: a positive number of clean-water tanks
  without a \<open>CLEAN_WATER_TANK\<close> entry raises the input-file error that names the
  clean-water inputs; and with no clean-water tank, whatever is stored under
  \<open>CLEAN_WATER_TANK\<close>, present or not, the call returns the sum of the costs of the
  other components, as the code computes them, with no term for the clean-water tanks.
\<close>

theorem clean_water_tank_requirement:
  assumes "priced finance_inputs BOS" and "0 \<le> installation_year"
  shows "(finance_inputs CLEAN_WATER_TANK = None \<and> 0 < clean_water_tanks
          \<longrightarrow> get_total_equipment_cost clean_water_tanks diesel_size finance_inputs
                hot_water_tanks LoggerObj pv_array_size pvt_array_size storage_size
                installation_year
              = Inl (InputFileError ''finance inputs''
                  (''No clean-water financial input information provided and a non-zero '' @
                   ''number of clean-water tanks are being considered.'')))
       \<and> (priced finance_inputs DIESEL \<and> priced finance_inputs PV
            \<and> priced finance_inputs STORAGE \<and> succeeds (get_entry finance_inputs MISC COST)
            \<and> (0 < h \<longrightarrow> priced finance_inputs HOT_WATER_TANK)
            \<and> (0 < pvt_array_size \<longrightarrow> priced finance_inputs PV_T)
          \<longrightarrow> get_total_equipment_cost 0 diesel_size
                (finance_inputs(CLEAN_WATER_TANK := x)) (Num h) logger pv_array_size
                pvt_array_size storage_size installation_year
              = Inr (capital_formula finance_inputs BOS pv_array_size installation_year
                     + capital_formula finance_inputs DIESEL diesel_size installation_year
                     + installation_formula finance_inputs DIESEL pv_array_size
                         installation_year
                     + (if 0 < h
                        then capital_formula finance_inputs HOT_WATER_TANK h installation_year
                             + installation_formula finance_inputs HOT_WATER_TANK h
                                 installation_year
                        else 0)
                     + (pv_array_size + diesel_size) * price finance_inputs MISC COST
                     + capital_formula finance_inputs PV pv_array_size installation_year
                     + installation_formula finance_inputs PV pv_array_size installation_year
                     + (if 0 < pvt_array_size
                        then capital_formula finance_inputs PV_T pv_array_size
                               installation_year
                             + installation_formula finance_inputs PV_T pvt_array_size
                                 installation_year
                        else 0)
                     + capital_formula finance_inputs STORAGE storage_size
                         installation_year))"
proof (intro conjI impI)
  assume a: "finance_inputs CLEAN_WATER_TANK = None \<and> 0 < clean_water_tanks"
  then show "get_total_equipment_cost clean_water_tanks diesel_size finance_inputs
        hot_water_tanks LoggerObj pv_array_size pvt_array_size storage_size installation_year
      = Inl (InputFileError ''finance inputs''
            (''No clean-water financial input information provided and a non-zero '' @
             ''number of clean-water tanks are being considered.''))"
    by (simp add: get_total_equipment_cost_def capital_of_eq [OF assms] and_then_Inr
        and_then_Inl require_entry_missing clean_water_error_def)
next
  assume b: "priced finance_inputs DIESEL \<and> priced finance_inputs PV
            \<and> priced finance_inputs STORAGE \<and> succeeds (get_entry finance_inputs MISC COST)
            \<and> (0 < h \<longrightarrow> priced finance_inputs HOT_WATER_TANK)
            \<and> (0 < pvt_array_size \<longrightarrow> priced finance_inputs PV_T)"
  have z: "(0::real) < 0 \<longrightarrow> priced finance_inputs CLEAN_WATER_TANK" by simp
  have "get_total_equipment_cost 0 diesel_size finance_inputs (Num h) logger pv_array_size
          pvt_array_size storage_size installation_year
        = Inr (capital_formula finance_inputs BOS pv_array_size installation_year
              + present_cost finance_inputs CLEAN_WATER_TANK 0 installation_year
              + capital_formula finance_inputs DIESEL diesel_size installation_year
              + installation_formula finance_inputs DIESEL pv_array_size installation_year
              + present_cost finance_inputs HOT_WATER_TANK h installation_year
              + (pv_array_size + diesel_size) * price finance_inputs MISC COST
              + capital_formula finance_inputs PV pv_array_size installation_year
              + installation_formula finance_inputs PV pv_array_size installation_year
              + (if 0 < pvt_array_size
                 then capital_formula finance_inputs PV_T pv_array_size installation_year
                      + installation_formula finance_inputs PV_T pvt_array_size installation_year
                 else 0)
              + capital_formula finance_inputs STORAGE storage_size installation_year)"
    using b by (intro get_total_equipment_cost_eq assms z) simp_all
  then show "get_total_equipment_cost 0 diesel_size
                (finance_inputs(CLEAN_WATER_TANK := x)) (Num h) logger pv_array_size
                pvt_array_size storage_size installation_year
              = Inr (capital_formula finance_inputs BOS pv_array_size installation_year
                     + capital_formula finance_inputs DIESEL diesel_size installation_year
                     + installation_formula finance_inputs DIESEL pv_array_size
                         installation_year
                     + (if 0 < h
                        then capital_formula finance_inputs HOT_WATER_TANK h installation_year
                             + installation_formula finance_inputs HOT_WATER_TANK h
                                 installation_year
                        else 0)
                     + (pv_array_size + diesel_size) * price finance_inputs MISC COST
                     + capital_formula finance_inputs PV pv_array_size installation_year
                     + installation_formula finance_inputs PV pv_array_size installation_year
                     + (if 0 < pvt_array_size
                        then capital_formula finance_inputs PV_T pv_array_size
                               installation_year
                             + installation_formula finance_inputs PV_T pvt_array_size
                                 installation_year
                        else 0)
                     + capital_formula finance_inputs STORAGE storage_size
                         installation_year)"
    by (simp add: clean_water_entry_unused present_cost_def)
qed

theorem clean_water_tank_requirement_witness:
  "get_total_equipment_cost 1 0 example_inputs (Num 0) LoggerObj 0 0 0 0
     = Inl (InputFileError ''finance inputs''
         (''No clean-water financial input information provided and a non-zero '' @
          ''number of clean-water tanks are being considered.''))
   \<and> get_total_equipment_cost 0 1 (full_example(CLEAN_WATER_TANK := None)) (Num 1) LoggerObj
        1 1 1 2 = Inr 83
   \<and> get_total_equipment_cost 0 1 full_example (Num 1) LoggerObj 1 1 1 2 = Inr 83"
proof -
  have y: "(0::int) \<le> 0" "(0::int) \<le> 2" by simp_all
  have a: "example_inputs CLEAN_WATER_TANK = None \<and> (0::real) < 1"
    by (simp add: example_lookup)
  have first: "get_total_equipment_cost 1 0 example_inputs (Num 0) LoggerObj 0 0 0 0
     = Inl (InputFileError ''finance inputs''
         (''No clean-water financial input information provided and a non-zero '' @
          ''number of clean-water tanks are being considered.''))"
    using clean_water_tank_requirement [OF example_priced(1) y(1),
        of 1 0 "Num 0" 0 0 0 0 None LoggerObj] a
    by blast
  have b: "priced full_example DIESEL \<and> priced full_example PV
            \<and> priced full_example STORAGE \<and> succeeds (get_entry full_example MISC COST)
            \<and> ((0::real) < 1 \<longrightarrow> priced full_example HOT_WATER_TANK)
            \<and> ((0::real) < 1 \<longrightarrow> priced full_example PV_T)"
    by (simp add: full_example_priced)
  have second: "get_total_equipment_cost 0 1 (full_example(CLEAN_WATER_TANK := x)) (Num 1)
                  LoggerObj 1 1 1 2 = Inr 83" for x
    using clean_water_tank_requirement [OF full_example_priced(1) y(2),
        of 0 1 "Num 0" 1 1 1 1 x LoggerObj] b
    by (simp add: full_example_formulas)
  have "full_example(CLEAN_WATER_TANK := full_example CLEAN_WATER_TANK) = full_example"
    by (rule fun_upd_triv)
  with first second [of None] second [of "full_example CLEAN_WATER_TANK"] show ?thesis
    by simp
qed

text \<open>
  C9 fails on the code: on inputs on which \<open>get_total_equipment_cost\<close> returns \<open>27\<close> (and
  the discount factor is \<open>1\<close>), \<open>discounted_equipment_cost\<close> raises a TypeError, because
  its call leaves out \<open>hot_water_tanks\<close> and the logger is compared with \<open>0\<close>.
\<close>

theorem discounted_equipment_cost_type_error:
  "get_total_equipment_cost 0 1 example_inputs (Num 0) LoggerObj 1 0 1 0 = Inr 27
   \<and> discounted_equipment_cost 0 1 example_inputs LoggerObj 1 0 1 0 = Inl TypeError"
proof -
  have "get_total_equipment_cost 0 1 example_inputs (Num 0) LoggerObj 1 0 1 0 = Inr 27"
    by (subst get_total_equipment_cost_eq)
       (simp_all add: example_priced succeeds_def example_entry_lookup example_formulas
          present_cost_def)
  moreover have "discounted_equipment_cost 0 1 example_inputs LoggerObj 1 0 1 0 = Inl TypeError"
    by (simp add: discounted_equipment_cost_def get_total_equipment_cost_def
        capital_of_eq installation_of_eq example_priced require_entry_not_positive
        optional_costs_def and_then_Inr and_then_Inl require_entry_def example_lookup
        gt_zero_def)
  ultimately show ?thesis by simp
qed

section \<open>Entries that are always read\<close>

text \<open>
  C10: on complete entries, with every optional component of size \<open>0\<close>:
  \<open>get_total_equipment_cost\<close> fails with the KeyError of a missing entry as soon as one
  of \<open>bos\<close>, \<open>diesel_generator\<close>, \<open>pv\<close>, \<open>storage\<close>, \<open>misc\<close> is missing, and so does
  \<open>total_om\<close> as soon as one of \<open>diesel_generator\<close>, \<open>general_o&m\<close>, \<open>pv\<close>, \<open>storage\<close> is
  missing; with all of these present both succeed, whether the optional entries
  \<open>clean_water_tank\<close>, \<open>hot_water_tank\<close> and \<open>pv_t\<close> are there or not.
\<close>

theorem required_entries_read_unconditionally:
  "(equipment_well_formed finance_inputs \<and> 0 \<le> installation_year
      \<and> (\<exists>c \<in> set equipment_required. finance_inputs c = None)
    \<longrightarrow> (\<exists>c \<in> set equipment_required. finance_inputs c = None
          \<and> get_total_equipment_cost 0 diesel_size finance_inputs (Num 0) LoggerObj
               pv_array_size 0 storage_size installation_year = Inl (KeyError c)))
   \<and> (om_well_formed finance_inputs \<and> start_year < end_year
      \<and> (\<exists>c \<in> set om_required. finance_inputs c = None)
    \<longrightarrow> (\<exists>c \<in> set om_required. finance_inputs c = None
          \<and> total_om 0 diesel_size finance_inputs 0 pv_array_size 0 storage_size
               start_year end_year = Inl (KeyError c)))
   \<and> (equipment_well_formed finance_inputs \<and> 0 \<le> installation_year
      \<and> (\<forall>c \<in> set equipment_required. finance_inputs c \<noteq> None)
    \<longrightarrow> succeeds (get_total_equipment_cost 0 diesel_size finance_inputs (Num 0) LoggerObj
                   pv_array_size 0 storage_size installation_year))
   \<and> (om_well_formed finance_inputs \<and> start_year < end_year
      \<and> (\<forall>c \<in> set om_required. finance_inputs c \<noteq> None)
    \<longrightarrow> succeeds (total_om 0 diesel_size finance_inputs 0 pv_array_size 0 storage_size
                   start_year end_year))"
proof (intro conjI impI)
  assume a: "equipment_well_formed finance_inputs \<and> 0 \<le> installation_year
      \<and> (\<exists>c \<in> set equipment_required. finance_inputs c = None)"
  then show "\<exists>c \<in> set equipment_required. finance_inputs c = None
          \<and> get_total_equipment_cost 0 diesel_size finance_inputs (Num 0) LoggerObj
               pv_array_size 0 storage_size installation_year = Inl (KeyError c)"
    using equipment_first_missing [OF _ _ refl, of finance_inputs installation_year diesel_size
        pv_array_size storage_size]
    unfolding equipment_required_def by (simp only: list.set insert_iff empty_iff bex_simps) blast
next
  assume a: "om_well_formed finance_inputs \<and> start_year < end_year
      \<and> (\<exists>c \<in> set om_required. finance_inputs c = None)"
  then show "\<exists>c \<in> set om_required. finance_inputs c = None
          \<and> total_om 0 diesel_size finance_inputs 0 pv_array_size 0 storage_size
               start_year end_year = Inl (KeyError c)"
    using om_first_missing [OF _ _ refl, of finance_inputs start_year end_year diesel_size
        pv_array_size storage_size]
    unfolding om_required_def by (simp only: list.set insert_iff empty_iff bex_simps) blast
next
  assume "equipment_well_formed finance_inputs \<and> 0 \<le> installation_year
      \<and> (\<forall>c \<in> set equipment_required. finance_inputs c \<noteq> None)"
  then show "succeeds (get_total_equipment_cost 0 diesel_size finance_inputs (Num 0) LoggerObj
                   pv_array_size 0 storage_size installation_year)"
    using equipment_first_missing [OF _ _ refl, of finance_inputs installation_year diesel_size
        pv_array_size storage_size]
    unfolding equipment_required_def by simp
next
  assume "om_well_formed finance_inputs \<and> start_year < end_year
      \<and> (\<forall>c \<in> set om_required. finance_inputs c \<noteq> None)"
  then show "succeeds (total_om 0 diesel_size finance_inputs 0 pv_array_size 0 storage_size
                   start_year end_year)"
    using om_first_missing [OF _ _ refl, of finance_inputs start_year end_year diesel_size
        pv_array_size storage_size]
    unfolding om_required_def by simp
qed

theorem required_entries_read_unconditionally_witness:
  "get_total_equipment_cost 0 0 (example_inputs(PV := None)) (Num 0) LoggerObj 0 0 0 0
     = Inl (KeyError PV)
   \<and> total_om 0 0 (example_inputs(PV := None)) 0 0 0 0 0 1 = Inl (KeyError PV)
   \<and> succeeds (get_total_equipment_cost 0 0 example_inputs (Num 0) LoggerObj 0 0 0 0)
   \<and> succeeds (total_om 0 0 example_inputs 0 0 0 0 0 1)"
proof -
  let ?fi = "example_inputs(PV := None)"
  have e: "\<exists>c \<in> set equipment_required. ?fi c = None"
    unfolding equipment_required_def by (simp add: example_without_pv del: fun_upd_apply)
  have o: "\<exists>c \<in> set om_required. ?fi c = None"
    unfolding om_required_def by (simp add: example_without_pv del: fun_upd_apply)
  have only: "c = PV" if "?fi c = None" "c \<in> set equipment_required \<or> c \<in> set om_required" for c
    using that unfolding equipment_required_def om_required_def
    by (auto simp add: example_without_pv simp del: fun_upd_apply)
  have e': "\<forall>c \<in> set equipment_required. example_inputs c \<noteq> None"
    unfolding equipment_required_def by (simp add: example_lookup)
  have o': "\<forall>c \<in> set om_required. example_inputs c \<noteq> None"
    unfolding om_required_def by (simp add: example_lookup)
  note t = required_entries_read_unconditionally [of ?fi 0 0 0 0 0 1]
  note t' = required_entries_read_unconditionally [of example_inputs 0 0 0 0 0 1]
  have "get_total_equipment_cost 0 0 ?fi (Num 0) LoggerObj 0 0 0 0 = Inl (KeyError PV)"
    using t e example_well_formed(3) only by (metis order_refl)
  moreover have "total_om 0 0 ?fi 0 0 0 0 0 1 = Inl (KeyError PV)"
    using t o example_well_formed(4) only by (metis zero_less_one)
  moreover have "succeeds (get_total_equipment_cost 0 0 example_inputs (Num 0) LoggerObj 0 0 0 0)"
    using t' e' example_well_formed(1) by simp
  moreover have "succeeds (total_om 0 0 example_inputs 0 0 0 0 0 1)"
    using t' o' example_well_formed(2) by simp
  ultimately show ?thesis by simp
qed

section \<open>Inverter replacement\<close>



end
